theory Spec2Isabelle
  imports Main "HOL-Library.Sublist"
begin

section \<open>The desktop terminal widget: prompt display and retraction\<close>

text \<open>
  \<^verbatim>\<open>sandbox_test_gui.py\<close>, class \<^verbatim>\<open>SandboxTestGUI\<close>. Only the attributes the
  prompt logic reads or writes are kept. The Tk text widget is its character content
  (without the newline Tk always keeps at the very end), so \<^verbatim>\<open>tk.END\<close> of an insert is
  the end of the content and \<^verbatim>\<open>index(tk.END + "-1c")\<close> is the length of the content.
  \<^verbatim>\<open>input_start_marker\<close> is a widget index (never an empty string, so it is truthy
  whenever it is not \<^verbatim>\<open>None\<close>); it is kept as a character offset.
\<close>

record gui =
  output_text :: string
  input_start_marker :: "nat option"
  waiting_for_input :: bool
  is_running :: bool
  current_input_line :: string

text \<open>\<^verbatim>\<open>output_text.insert(tk.END, s)\<close>.\<close>

definition tk_insert_end :: "string \<Rightarrow> gui \<Rightarrow> gui" where
  "tk_insert_end s g = g\<lparr>output_text := output_text g @ s\<rparr>"

text \<open>
  \<^verbatim>\<open>output_text.delete(index(m + "-2c"), index(m))\<close>: Tk clamps an index that would
  fall before the start of the text to the start, as truncating subtraction does.
\<close>

definition tk_delete :: "nat \<Rightarrow> nat \<Rightarrow> gui \<Rightarrow> gui" where
  "tk_delete i j g = g\<lparr>output_text := take i (output_text g) @ drop j (output_text g)\<rparr>"

text \<open>
  \<^verbatim>\<open>
  def show_prompt(self):
      if not self.waiting_for_input and self.is_running:
          self.output_text.insert(tk.END, "$ ", "prompt")
          self.input_start_marker = self.output_text.index(tk.END + "-1c")
          self.waiting_for_input = True
          self.current_input_line = ""
  \<close>
\<close>

definition show_prompt :: "gui \<Rightarrow> gui" where
  "show_prompt g =
     (if \<not> waiting_for_input g \<and> is_running g then
        (let g1 = tk_insert_end ''$ '' g in
         g1\<lparr>input_start_marker := Some (length (output_text g1)),
            waiting_for_input := True,
            current_input_line := []\<rparr>)
      else g)"

text \<open>
  The first block of \<^verbatim>\<open>log_output\<close>, the retraction of the prompt:
  \<^verbatim>\<open>
  if self.waiting_for_input and self.input_start_marker:
      try:
          start_line = self.output_text.index(self.input_start_marker + "-2c")
          end_line = self.output_text.index(self.input_start_marker)
          self.output_text.delete(start_line, end_line)
          self.input_start_marker = None
          self.waiting_for_input = False
      except:
          pass
  \<close>
  The marker was returned by the widget's own \<^verbatim>\<open>index\<close>, so the widget accepts it and
  the \<^verbatim>\<open>except\<close> branch is not taken.
\<close>

definition retract_prompt :: "gui \<Rightarrow> gui" where
  "retract_prompt g =
     (case input_start_marker g of
        Some m \<Rightarrow>
          (if waiting_for_input g then
             (tk_delete (m - 2) m g)\<lparr>input_start_marker := None, waiting_for_input := False\<rparr>
           else g)
      | None \<Rightarrow> g)"

text \<open>
  \<^verbatim>\<open>
  def log_output(self, text, tag=None):
      <retract the prompt>
      self.output_text.insert(tk.END, text)      # with the tag when one is given
  \<close>
\<close>

definition log_output :: "gui \<Rightarrow> string \<Rightarrow> gui" where
  "log_output g s = tk_insert_end s (retract_prompt g)"

text \<open>The operator typing \<^verbatim>\<open>u\<close> after the prompt: Tk inserts the keys in the widget.\<close>

definition type_keys :: "string \<Rightarrow> gui \<Rightarrow> gui" where
  "type_keys u g = tk_insert_end u g"

section \<open>Paths and the file system\<close>

text \<open>
  A resolved path is the list of its components below the root directory \<^verbatim>\<open>/\<close>. A
  \<^verbatim>\<open>pathlib.Path\<close> is an absolute flag and its segments: \<^verbatim>\<open>Path(s)\<close> splits the
  string at \<^verbatim>\<open>/\<close> and drops empty segments and \<^verbatim>\<open>.\<close> segments, but keeps \<^verbatim>\<open>..\<close>
  (POSIX flavour).
\<close>

type_synonym path = "string list"

datatype pypath = PyPath (is_absolute: bool) (segments: "string list")

fun split_sep :: "string \<Rightarrow> string list" where
  "split_sep [] = [[]]"
| "split_sep (c # cs) =
     (if c = CHR ''/'' then [] # split_sep cs
      else (case split_sep cs of w # ws \<Rightarrow> (c # w) # ws | [] \<Rightarrow> [[c]]))"

definition Path :: "string \<Rightarrow> pypath" where
  "Path s = PyPath (take 1 s = ''/'')
     (filter (\<lambda>w. w \<noteq> [] \<and> w \<noteq> ''.'') (split_sep s))"

text \<open>
  The file system is a tree without symbolic links: the directories and the regular
  files that exist, each by its resolved path, the nodes the process may execute
  (\<^verbatim>\<open>os.access(p, os.X_OK)\<close>), and the working directory of the server. Permissions are
  not modelled: a removal the code asks for always takes place.
\<close>

record filesys =
  cwd :: path
  dirs :: "path list"
  files :: "path list"
  xnodes :: "path list"

text \<open>\<^verbatim>\<open>os.getcwd()\<close> raises \<^verbatim>\<open>FileNotFoundError\<close> when the working directory is gone.\<close>

definition getcwd :: "filesys \<Rightarrow> path option" where
  "getcwd fs = (if cwd fs \<in> set (dirs fs) then Some (cwd fs) else None)"

text \<open>
  \<^verbatim>\<open>Path.resolve()\<close> (not strict): the path is made absolute against the working
  directory and its segments are consumed from the left, a \<^verbatim>\<open>..\<close> dropping the last
  component reached so far (none at the root). Without symbolic links this does not
  look at the tree; the only failure is that of \<^verbatim>\<open>os.getcwd()\<close>.
\<close>

fun collapse :: "path \<Rightarrow> string list \<Rightarrow> path" where
  "collapse cur [] = cur"
| "collapse cur (w # ws) =
     (if w = ''..'' then collapse (butlast cur) ws else collapse (cur @ [w]) ws)"

definition resolve :: "filesys \<Rightarrow> pypath \<Rightarrow> path option" where
  "resolve fs p =
     (if is_absolute p then Some (collapse [] (segments p))
      else (case getcwd fs of None \<Rightarrow> None | Some d \<Rightarrow> Some (collapse d (segments p))))"

text \<open>
  The look-up the operating system does for \<^verbatim>\<open>stat\<close>, \<^verbatim>\<open>unlink\<close> and the walk of
  \<^verbatim>\<open>rmtree\<close>: every component passed through must be an existing directory.
\<close>

fun walk :: "filesys \<Rightarrow> path \<Rightarrow> string list \<Rightarrow> path option" where
  "walk fs cur [] = Some cur"
| "walk fs cur (w # ws) =
     (if cur \<in> set (dirs fs) then
        (if w = ''..'' then walk fs (butlast cur) ws else walk fs (cur @ [w]) ws)
      else None)"

definition lookup :: "filesys \<Rightarrow> pypath \<Rightarrow> path option" where
  "lookup fs p = walk fs (if is_absolute p then [] else cwd fs) (segments p)"

definition is_dir :: "filesys \<Rightarrow> pypath \<Rightarrow> bool" where
  "is_dir fs p = (case lookup fs p of None \<Rightarrow> False | Some c \<Rightarrow> c \<in> set (dirs fs))"

definition exists_path :: "filesys \<Rightarrow> pypath \<Rightarrow> bool" where
  "exists_path fs p =
     (case lookup fs p of None \<Rightarrow> False
      | Some c \<Rightarrow> c \<in> set (dirs fs) \<or> c \<in> set (files fs))"

text \<open>\<^verbatim>\<open>shutil.rmtree(p, ignore_errors=True)\<close>: the directory and everything below it.\<close>

definition rmtree :: "filesys \<Rightarrow> pypath \<Rightarrow> filesys" where
  "rmtree fs p =
     (case lookup fs p of
        None \<Rightarrow> fs
      | Some c \<Rightarrow>
          fs\<lparr>dirs := filter (\<lambda>n. \<not> prefix c n) (dirs fs),
             files := filter (\<lambda>n. \<not> prefix c n) (files fs),
             xnodes := filter (\<lambda>n. \<not> prefix c n) (xnodes fs)\<rparr>)"

text \<open>
  \<^verbatim>\<open>p.unlink(missing_ok=True)\<close> inside \<^verbatim>\<open>try: ... except Exception: pass\<close>, as both
  callers have it: a regular file is removed, a missing path is accepted, and the error
  raised for a directory is swallowed by the caller.
\<close>

definition unlink :: "filesys \<Rightarrow> pypath \<Rightarrow> filesys" where
  "unlink fs p =
     (case lookup fs p of
        None \<Rightarrow> fs
      | Some c \<Rightarrow>
          (if c \<in> set (files fs) then
             fs\<lparr>files := removeAll c (files fs), xnodes := removeAll c (xnodes fs)\<rparr>
           else fs))"

section \<open>The web dashboard: registry and artifact clean-up\<close>

text \<open>\<^verbatim>\<open>UPLOAD_DIR = Path('uploads')\<close>, relative to the working directory.\<close>

definition UPLOAD_DIR :: pypath where
  "UPLOAD_DIR = Path ''uploads''"

text \<open>\<^verbatim>\<open>PurePath.parents\<close> of a resolved path: its proper ancestors, nearest first.\<close>

definition parents :: "path \<Rightarrow> path list" where
  "parents c = map (\<lambda>k. take k c) (rev [0..<length c])"

text \<open>
  \<^verbatim>\<open>
  def is_within_uploads(path: Path) -> bool:
      try:
          return UPLOAD_DIR.resolve() in path.resolve().parents or path.resolve() == UPLOAD_DIR.resolve()
      except FileNotFoundError:
          return False
  \<close>
\<close>

definition is_within_uploads :: "filesys \<Rightarrow> pypath \<Rightarrow> bool" where
  "is_within_uploads fs p =
     (case resolve fs UPLOAD_DIR of
        None \<Rightarrow> False
      | Some r \<Rightarrow>
          (case resolve fs p of
             None \<Rightarrow> False
           | Some c \<Rightarrow> r \<in> set (parents c) \<or> c = r))"



text \<open>
  The entry \<^verbatim>\<open>launch_sandbox_process\<close> stores in \<^verbatim>\<open>running_processes\<close>. \<^verbatim>\<open>process\<close>
  is the \<^verbatim>\<open>Popen\<close> object (its pid and what \<^verbatim>\<open>poll()\<close> returns), \<^verbatim>\<open>stdin\<close> the
  write end of the child's standard input: what was written and not yet flushed, what
  the child can read, and the message of the exception a write raises when the pipe is
  broken. The dictionary's \<^verbatim>\<open>get\<close> returns \<^verbatim>\<open>None\<close> for an absent key, so both are
  options.
\<close>

record popen =
  proc_pid :: nat
  poll :: "int option"

record pipe =
  pending :: string
  delivered :: string
  fault :: "string option"

record proc_info =
  process :: "popen option"
  pid :: nat
  command :: string
  start_time :: nat
  stdin :: "pipe option"
  uploaded_file :: "string option"
  cleanup_paths :: "string list"

datatype event =
  Output string string
  | ProcessComplete string int string
  | ErrorEvent string

text \<open>
  The state of the server: the global \<^verbatim>\<open>running_processes\<close>, the file system, the
  events sent through \<^verbatim>\<open>socketio.emit\<close> (oldest first) and the argument vectors given
  to \<^verbatim>\<open>subprocess.Popen\<close> (oldest first).
\<close>

record world =
  running_processes :: "string \<rightharpoonup> proc_info"
  fsys :: filesys
  emitted :: "event list"
  spawned :: "string list list"

text \<open>
  \<^verbatim>\<open>
  paths_to_remove = []
  if uploaded_file:
      uploaded_path = Path(uploaded_file)
      if is_within_uploads(uploaded_path):
          paths_to_remove.append(uploaded_path)
  for p in cleanup_paths:
      path_obj = Path(p)
      if is_within_uploads(path_obj):
          paths_to_remove.append(path_obj)
  \<close>
\<close>

definition paths_to_remove :: "filesys \<Rightarrow> proc_info \<Rightarrow> pypath list" where
  "paths_to_remove fs info =
     (case uploaded_file info of
        None \<Rightarrow> []
      | Some f \<Rightarrow> (if f \<noteq> [] \<and> is_within_uploads fs (Path f) then [Path f] else []))
     @ filter (is_within_uploads fs) (map Path (cleanup_paths info))"

text \<open>
  \<^verbatim>\<open>
  for path in paths_to_remove:
      try:
          if path.is_dir():
              shutil.rmtree(path, ignore_errors=True)
          elif path.exists():
              path.unlink(missing_ok=True)
      except Exception:
          pass
  \<close>
\<close>

definition remove_path :: "filesys \<Rightarrow> pypath \<Rightarrow> filesys" where
  "remove_path fs p =
     (if is_dir fs p then rmtree fs p
      else if exists_path fs p then unlink fs p
      else fs)"

definition remove_paths :: "filesys \<Rightarrow> pypath list \<Rightarrow> filesys" where
  "remove_paths fs ps = foldl remove_path fs ps"

text \<open>
  \<^verbatim>\<open>
  def cleanup_process_resources(process_id):
      info = running_processes.pop(process_id, None)
      if not info:
          return
      ...
  \<close>
  An entry is a dictionary of seven keys, so it is truthy whenever it is there.
\<close>

definition cleanup_process_resources :: "world \<Rightarrow> string \<Rightarrow> world" where
  "cleanup_process_resources w process_id =
     (case running_processes w process_id of
        None \<Rightarrow> w
      | Some info \<Rightarrow>
          w\<lparr>running_processes := (running_processes w)(process_id := None),
            fsys := remove_paths (fsys w) (paths_to_remove (fsys w) info)\<rparr>)"

text \<open>
  The path a look-up or a resolution ends at when it succeeds: the segments consumed
  from the working directory (or from the root, for an absolute path), whatever exists.
\<close>

definition lexical :: "filesys \<Rightarrow> pypath \<Rightarrow> path" where
  "lexical fs p = collapse (if is_absolute p then [] else cwd fs) (segments p)"

section \<open>The web dashboard: output streaming and input relay\<close>

definition newline :: char where
  "newline = CHR 0x0A"


definition endswith_nl :: "string \<Rightarrow> bool" where
  "endswith_nl s = (s \<noteq> [] \<and> last s = newline)"






text \<open>
  The message of the \<^verbatim>\<open>send_input\<close> socket event. A key of the dictionary is absent,
  \<^verbatim>\<open>null\<close> or given; \<^verbatim>\<open>data.get('process_id')\<close> does not tell the first two apart.
  \<^verbatim>\<open>text\<close> is taken to be a string and \<^verbatim>\<open>append_newline\<close> a boolean when given.
\<close>

datatype 'a json_field = Absent | Null | Given 'a

record send_data =
  d_process_id :: "string option"
  d_text :: "string json_field"
  d_append_newline :: "bool json_field"

text \<open>\<^verbatim>\<open>stdin.write(s)\<close> and \<^verbatim>\<open>stdin.flush()\<close>; \<^verbatim>\<open>Inl\<close> is the message of the exception.\<close>

definition pipe_write :: "string \<Rightarrow> pipe \<Rightarrow> string + pipe" where
  "pipe_write s p =
     (case fault p of Some m \<Rightarrow> Inl m | None \<Rightarrow> Inr (p\<lparr>pending := pending p @ s\<rparr>))"

definition pipe_flush :: "pipe \<Rightarrow> string + pipe" where
  "pipe_flush p =
     (case fault p of
        Some m \<Rightarrow> Inl m
      | None \<Rightarrow> Inr (p\<lparr>delivered := delivered p @ pending p, pending := []\<rparr>))"

text \<open>
  \<^verbatim>\<open>
  def handle_send_input(data):
      process_id = data.get('process_id')
      text = data.get('text', '')
      if not process_id or process_id not in running_processes or text is None:
          return
      proc_info = running_processes.get(process_id)
      proc = proc_info.get('process') if proc_info else None
      stdin = proc_info.get('stdin') if proc_info else None
      if proc is None or proc.poll() is not None or stdin is None:
          return
      append_newline = data.get('append_newline', True)
      try:
          if append_newline and not text.endswith('\n'):
              stdin.write(text + '\n')
          else:
              stdin.write(text)
          stdin.flush()
      except Exception as e:
          socketio.emit('error', {'message': f'Failed to send input: {str(e)}'})
  \<close>
  The pipe is an object shared with the registry entry, so what is written shows in
  the entry.
\<close>

definition get_text :: "send_data \<Rightarrow> string option" where
  "get_text data = (case d_text data of Absent \<Rightarrow> Some [] | Null \<Rightarrow> None | Given t \<Rightarrow> Some t)"

definition get_append_newline :: "send_data \<Rightarrow> bool" where
  "get_append_newline data =
     (case d_append_newline data of Absent \<Rightarrow> True | Null \<Rightarrow> False | Given b \<Rightarrow> b)"

text \<open>The \<^verbatim>\<open>try\<close> block: the write and the flush, or the message of the exception.\<close>

definition write_and_flush :: "bool \<Rightarrow> string \<Rightarrow> pipe \<Rightarrow> string + pipe" where
  "write_and_flush append_newline txt sin =
     (case (if append_newline \<and> \<not> endswith_nl txt then pipe_write (txt @ [newline]) sin
            else pipe_write txt sin) of
        Inl e \<Rightarrow> Inl e
      | Inr sin1 \<Rightarrow> pipe_flush sin1)"

definition handle_send_input :: "world \<Rightarrow> send_data \<Rightarrow> world" where
  "handle_send_input w data =
     (case (d_process_id data, get_text data) of
        (Some process_id, Some txt) \<Rightarrow>
          (if process_id = [] then w
           else
             (case running_processes w process_id of
                None \<Rightarrow> w
              | Some proc_info \<Rightarrow>
                  (case (process proc_info, stdin proc_info) of
                     (Some proc, Some sin) \<Rightarrow>
                       (if poll proc \<noteq> None then w
                        else
                          (case write_and_flush (get_append_newline data) txt sin of
                             Inl e \<Rightarrow>
                               w\<lparr>emitted := emitted w
                                   @ [ErrorEvent (''Failed to send input: '' @ e)]\<rparr>
                           | Inr sin2 \<Rightarrow>
                               w\<lparr>running_processes := (running_processes w)
                                   (process_id \<mapsto> proc_info\<lparr>stdin := Some sin2\<rparr>)\<rparr>))
                   | _ \<Rightarrow> w)))
      | _ \<Rightarrow> w)"

section \<open>The web dashboard: launching\<close>

text \<open>
  A resource-limit value as the launcher receives it: absent (\<^verbatim>\<open>None\<close>), an integer
  (the JSON body of \<^verbatim>\<open>/api/run\<close>) or a string (the form of \<^verbatim>\<open>/api/analyze-run\<close>).
  \<^verbatim>\<open>truthy\<close> is Python's truth test and \<^verbatim>\<open>str_of\<close> what an f-string prints.
\<close>

datatype pyval = PNone | PInt int | PStr string

definition digit_char :: "nat \<Rightarrow> char" where
  "digit_char d = ''0123456789'' ! d"

function str_nat :: "nat \<Rightarrow> string" where
  "str_nat n = (if n < 10 then [digit_char n] else str_nat (n div 10) @ [digit_char (n mod 10)])"
  by pat_completeness auto
termination
  by (relation "measure id") auto

definition str_int :: "int \<Rightarrow> string" where
  "str_int i = (if i < 0 then CHR ''-'' # str_nat (nat (- i)) else str_nat (nat i))"

fun truthy :: "pyval \<Rightarrow> bool" where
  "truthy PNone = False"
| "truthy (PInt i) = (i \<noteq> 0)"
| "truthy (PStr s) = (s \<noteq> [])"

fun str_of :: "pyval \<Rightarrow> string" where
  "str_of PNone = ''None''"
| "str_of (PInt i) = str_int i"
| "str_of (PStr s) = s"

text \<open>The \<^verbatim>\<open>limits\<close> dictionary, read with \<^verbatim>\<open>limits.get\<close>: a missing key is \<^verbatim>\<open>None\<close>.\<close>

record limits =
  cpu :: pyval
  memory :: pyval
  processes :: pyval
  file_size :: pyval

text \<open>
  \<^verbatim>\<open>
  full_cmd = [sandbox_path]
  if cpu:
      full_cmd.append(f"--cpu={cpu}")
  if memory:
      full_cmd.append(f"--mem={memory}")
  if processes:
      full_cmd.append(f"--procs={processes}")
  if file_size:
      full_cmd.append(f"--fsize={file_size}")
  full_cmd.extend(command_parts)
  \<close>
\<close>

definition assemble_cmd :: "string \<Rightarrow> limits \<Rightarrow> string list \<Rightarrow> string list" where
  "assemble_cmd sandbox_path lim command_parts =
     (let full_cmd = [sandbox_path];
          full_cmd = (if truthy (cpu lim)
                      then full_cmd @ [''--cpu='' @ str_of (cpu lim)] else full_cmd);
          full_cmd = (if truthy (memory lim)
                      then full_cmd @ [''--mem='' @ str_of (memory lim)] else full_cmd);
          full_cmd = (if truthy (processes lim)
                      then full_cmd @ [''--procs='' @ str_of (processes lim)] else full_cmd);
          full_cmd = (if truthy (file_size lim)
                      then full_cmd @ [''--fsize='' @ str_of (file_size lim)] else full_cmd)
      in full_cmd @ command_parts)"

text \<open>
  \<^verbatim>\<open>cli.py\<close>, \<^verbatim>\<open>run_command\<close>: the same assembly from the parsed arguments, each limit
  an integer (\<^verbatim>\<open>type=int\<close>) or \<^verbatim>\<open>None\<close>.
\<close>

record cli_args =
  arg_cpu :: "int option"
  arg_memory :: "int option"
  arg_processes :: "int option"
  arg_file_size :: "int option"
  arg_command :: "string list"

definition arg_truthy :: "int option \<Rightarrow> bool" where
  "arg_truthy a = (case a of None \<Rightarrow> False | Some i \<Rightarrow> i \<noteq> 0)"

definition run_command_cmd :: "string \<Rightarrow> cli_args \<Rightarrow> string list" where
  "run_command_cmd sandbox_path args =
     (let cmd = [sandbox_path];
          cmd = (if arg_truthy (arg_cpu args)
                 then cmd @ [''--cpu='' @ str_int (the (arg_cpu args))] else cmd);
          cmd = (if arg_truthy (arg_memory args)
                 then cmd @ [''--mem='' @ str_int (the (arg_memory args))] else cmd);
          cmd = (if arg_truthy (arg_processes args)
                 then cmd @ [''--procs='' @ str_int (the (arg_processes args))] else cmd);
          cmd = (if arg_truthy (arg_file_size args)
                 then cmd @ [''--fsize='' @ str_int (the (arg_file_size args))] else cmd)
      in cmd @ arg_command args)"

text \<open>The exceptions of the launch path, each with its message (\<^verbatim>\<open>str(e)\<close>).\<close>

datatype error = RuntimeError string | ValueError string | OSError string

fun message :: "error \<Rightarrow> string" where
  "message (RuntimeError m) = m"
| "message (ValueError m) = m"
| "message (OSError m) = m"

text \<open>
  What the launcher takes from its surroundings: the path \<^verbatim>\<open>find_sandbox()\<close> returns,
  the hexadecimal tokens of \<^verbatim>\<open>uuid.uuid4()\<close>, the outcome of \<^verbatim>\<open>subprocess.Popen\<close>
  (the message of the \<^verbatim>\<open>OSError\<close>, or the pid of the child), the clock, and for
  \<^verbatim>\<open>build_execution_command\<close> the platform, \<^verbatim>\<open>shutil.which\<close>, the outcome of the
  compiler run and the package the Java source declares; for \<^verbatim>\<open>save_uploaded_file\<close>
  werkzeug's \<^verbatim>\<open>secure_filename\<close>.
\<close>

datatype run_result = RunRaised string | Completed int string string

record env =
  find_sandbox :: "string option"
  uuid_fallback :: string
  uuid_unique :: string
  uuid_build :: string
  uuid_proc :: string
  popen_result :: "string + nat"
  clock :: nat
  os_name_nt :: bool
  which :: "string \<Rightarrow> bool"
  compile_result :: run_result
  java_package :: "string option"
  secure_filename :: "string \<Rightarrow> string"

record metadata =
  m_uploaded_file :: "string option"
  m_cleanup_paths :: "string list"

fun join_with :: "string \<Rightarrow> string list \<Rightarrow> string" where
  "join_with sep [] = []"
| "join_with sep [x] = x"
| "join_with sep (x # y # ys) = x @ sep @ join_with sep (y # ys)"

text \<open>
  \<^verbatim>\<open>
  def launch_sandbox_process(command_parts, limits, metadata):
      sandbox_path = find_sandbox()
      if not sandbox_path:
          raise RuntimeError('Sandbox executable not found')
      <assemble full_cmd>
      process_id = f"proc_{uuid.uuid4().hex}"
      proc = subprocess.Popen(full_cmd, stdout=PIPE, stderr=STDOUT, stdin=PIPE, ...)
      running_processes[process_id] = {'process': proc, 'pid': proc.pid,
          'command': ' '.join(full_cmd), 'start_time': time.time(), 'stdin': proc.stdin,
          'uploaded_file': metadata.get('uploaded_file'),
          'cleanup_paths': metadata.get('cleanup_paths', [])}
      <start the monitoring and the streaming thread>
      return process_id, proc.pid
  \<close>
  The two threads are not part of this function's result; the streaming thread is
  \<^verbatim>\<open>stream_process_output\<close> above.
\<close>

definition launch_sandbox_process ::
  "env \<Rightarrow> world \<Rightarrow> string list \<Rightarrow> limits \<Rightarrow> metadata \<Rightarrow> (error + string \<times> nat) \<times> world" where
  "launch_sandbox_process e w command_parts lim md =
     (case find_sandbox e of
        None \<Rightarrow> (Inl (RuntimeError ''Sandbox executable not found''), w)
      | Some sandbox_path \<Rightarrow>
          (if sandbox_path = [] then (Inl (RuntimeError ''Sandbox executable not found''), w)
           else
             (let full_cmd = assemble_cmd sandbox_path lim command_parts;
                  process_id = ''proc_'' @ uuid_proc e
              in (case popen_result e of
                    Inl m \<Rightarrow> (Inl (OSError m), w)
                  | Inr child_pid \<Rightarrow>
                      (Inr (process_id, child_pid),
                       w\<lparr>spawned := spawned w @ [full_cmd],
                         running_processes := (running_processes w)(process_id \<mapsto>
                           \<lparr>process = Some \<lparr>proc_pid = child_pid, poll = None\<rparr>,
                            pid = child_pid,
                            command = join_with '' '' full_cmd,
                            start_time = clock e,
                            stdin = Some \<lparr>pending = [], delivered = [], fault = None\<rparr>,
                            uploaded_file = m_uploaded_file md,
                            cleanup_paths = m_cleanup_paths md\<rparr>)\<rparr>)))))"

section \<open>The web dashboard: preparing the command and the request handler\<close>

text \<open>
  More of \<^verbatim>\<open>pathlib\<close>: \<^verbatim>\<open>name\<close>, \<^verbatim>\<open>suffix\<close> (from the last dot of the name, when that
  dot is neither its first nor its last character), \<^verbatim>\<open>stem\<close>, \<^verbatim>\<open>str\<close>, the \<^verbatim>\<open>/\<close>
  operator, and \<^verbatim>\<open>str.lower\<close> on ASCII letters.
\<close>

definition name_of :: "pypath \<Rightarrow> string" where
  "name_of p = (if segments p = [] then [] else last (segments p))"

definition rfind_dot :: "string \<Rightarrow> nat option" where
  "rfind_dot s =
     (if CHR ''.'' \<in> set s
      then Some (length s - 1 - length (takeWhile (\<lambda>c. c \<noteq> CHR ''.'') (rev s)))
      else None)"

definition suffix_of :: "string \<Rightarrow> string" where
  "suffix_of s =
     (case rfind_dot s of
        None \<Rightarrow> []
      | Some i \<Rightarrow> (if 0 < i \<and> i < length s - 1 then drop i s else []))"

definition stem_of :: "string \<Rightarrow> string" where
  "stem_of s =
     (case rfind_dot s of
        None \<Rightarrow> s
      | Some i \<Rightarrow> (if 0 < i \<and> i < length s - 1 then take i s else s))"

definition str_path :: "pypath \<Rightarrow> string" where
  "str_path p =
     (if is_absolute p then ''/'' @ join_with ''/'' (segments p)
      else if segments p = [] then ''.''
      else join_with ''/'' (segments p))"

definition joinpath :: "pypath \<Rightarrow> string \<Rightarrow> pypath" where
  "joinpath p s =
     (let q = Path s
      in if is_absolute q then q else PyPath (is_absolute p) (segments p @ segments q))"

definition lower_char :: "char \<Rightarrow> char" where
  "lower_char c =
     (case List.find (\<lambda>(u, l). u = c)
             (zip ''ABCDEFGHIJKLMNOPQRSTUVWXYZ'' ''abcdefghijklmnopqrstuvwxyz'') of
        Some (u, l) \<Rightarrow> l
      | None \<Rightarrow> c)"

definition lower :: "string \<Rightarrow> string" where
  "lower s = map lower_char s"

definition is_space :: "char \<Rightarrow> bool" where
  "is_space c = (c \<in> set [CHR '' '', CHR 0x09, CHR 0x0A, CHR 0x0B, CHR 0x0C, CHR 0x0D])"

definition strip :: "string \<Rightarrow> string" where
  "strip s = rev (dropWhile is_space (rev (dropWhile is_space s)))"

text \<open>
  More of the file system. \<^verbatim>\<open>mkdir(parents=True, exist_ok=True)\<close> creates the missing
  directories of the chain and fails when one of them is a regular file; opening a
  file for writing needs the parent directory and a target that is not a directory.
  The paths these are applied to have no \<^verbatim>\<open>..\<close> segment.
\<close>

definition access_x :: "filesys \<Rightarrow> pypath \<Rightarrow> bool" where
  "access_x fs p = (case lookup fs p of None \<Rightarrow> False | Some c \<Rightarrow> c \<in> set (xnodes fs))"

definition mkdir_p :: "filesys \<Rightarrow> pypath \<Rightarrow> error + filesys" where
  "mkdir_p fs p =
     (let c = lexical fs p
      in if \<not> is_absolute p \<and> cwd fs \<notin> set (dirs fs) then Inl (OSError ''FileNotFoundError'')
         else if list_ex (\<lambda>d. d \<in> set (files fs)) (prefixes c)
              then Inl (OSError ''FileExistsError'')
         else Inr (fs\<lparr>dirs := dirs fs @ filter (\<lambda>d. d \<notin> set (dirs fs)) (prefixes c)\<rparr>))"

definition write_file :: "filesys \<Rightarrow> pypath \<Rightarrow> error + filesys" where
  "write_file fs p =
     (let c = lexical fs p
      in if c \<noteq> [] \<and> butlast c \<in> set (dirs fs) \<and> c \<notin> set (dirs fs)
         then Inr (fs\<lparr>files := (if c \<in> set (files fs) then files fs else files fs @ [c])\<rparr>)
         else Inl (OSError ''cannot open the file for writing''))"

definition chmod_x :: "filesys \<Rightarrow> pypath \<Rightarrow> filesys" where
  "chmod_x fs p =
     (let c = lexical fs p
      in fs\<lparr>xnodes := (if c \<in> set (xnodes fs) then xnodes fs else xnodes fs @ [c])\<rparr>)"

definition ensure_upload_dir :: "filesys \<Rightarrow> error + filesys" where
  "ensure_upload_dir fs = mkdir_p fs UPLOAD_DIR"

text \<open>
  \<^verbatim>\<open>
  def save_uploaded_file(file_storage):
      ensure_upload_dir()
      original_name = secure_filename(file_storage.filename) or f"upload_{uuid.uuid4().hex}"
      suffix = Path(original_name).suffix
      unique_name = f"{Path(original_name).stem}_{uuid.uuid4().hex}{suffix}"
      destination = UPLOAD_DIR / unique_name
      file_storage.save(destination)
      return destination
  \<close>
\<close>

definition save_uploaded_file :: "env \<Rightarrow> filesys \<Rightarrow> string \<Rightarrow> (error + pypath) \<times> filesys" where
  "save_uploaded_file e fs filename =
     (case ensure_upload_dir fs of
        Inl er \<Rightarrow> (Inl er, fs)
      | Inr fs1 \<Rightarrow>
          (let original_name =
                 (if secure_filename e filename \<noteq> [] then secure_filename e filename
                  else ''upload_'' @ uuid_fallback e);
               suffix = suffix_of (name_of (Path original_name));
               unique_name = stem_of (name_of (Path original_name)) @ ''_'' @ uuid_unique e @ suffix;
               destination = joinpath UPLOAD_DIR unique_name
           in (case write_file fs1 destination of
                 Inl er \<Rightarrow> (Inl er, fs1)
               | Inr fs2 \<Rightarrow> (Inr destination, fs2))))"

text \<open>
  \<^verbatim>\<open>interpreter_map\<close>: the outer option is the key being in the dictionary, the inner
  one its value (\<^verbatim>\<open>'.bat'\<close> maps to \<^verbatim>\<open>None\<close> off Windows).
\<close>

definition interpreter_map :: "bool \<Rightarrow> string \<Rightarrow> string list option option" where
  "interpreter_map nt ext =
     (if ext = ''.py'' then Some (Some (if nt then [''python''] else [''python3'']))
      else if ext = ''.sh'' then Some (Some [''bash''])
      else if ext = ''.js'' then Some (Some [''node''])
      else if ext = ''.rb'' then Some (Some [''ruby''])
      else if ext = ''.pl'' then Some (Some [''perl''])
      else if ext = ''.ps1'' then Some (Some (if nt then [''powershell''] else [''pwsh'']))
      else if ext = ''.bat'' then Some (if nt then Some [''cmd.exe'', ''/c''] else None)
      else None)"

definition quote :: char where
  "quote = CHR 0x27"

text \<open>
  The C and the C++ branch of \<^verbatim>\<open>build_execution_command\<close>, which differ in the
  compiler and in the word of the message:
  \<^verbatim>\<open>
  ensure_upload_dir()
  build_dir = UPLOAD_DIR / f"build_{uuid.uuid4().hex}"
  build_dir.mkdir(parents=True, exist_ok=True)
  output_name = file_path.stem + ('.exe' if os.name == 'nt' else '')
  output_path = build_dir / output_name
  compile_cmd = ['gcc', str(file_path), '-o', str(output_path)]
  result = subprocess.run(compile_cmd, capture_output=True, text=True, timeout=60)
  if result.returncode != 0:
      raise RuntimeError(f"C compilation failed:\n{result.stderr or result.stdout}")
  if os.name != 'nt':
      os.chmod(output_path, 0o755)
  cleanup_paths.append(str(build_dir))
  return [str(output_path)], cleanup_paths
  \<close>
  A compiler run that returns 0 has written \<^verbatim>\<open>output_path\<close>; one that fails has
  written nothing.
\<close>

definition compile_native ::
  "env \<Rightarrow> filesys \<Rightarrow> pypath \<Rightarrow> string \<Rightarrow> (error + string list \<times> string list) \<times> filesys" where
  "compile_native e fs file_path lang =
     (case ensure_upload_dir fs of
        Inl er \<Rightarrow> (Inl er, fs)
      | Inr fs1 \<Rightarrow>
          (let build_dir = joinpath UPLOAD_DIR (''build_'' @ uuid_build e)
           in (case mkdir_p fs1 build_dir of
                 Inl er \<Rightarrow> (Inl er, fs1)
               | Inr fs2 \<Rightarrow>
                   (let output_name = stem_of (name_of file_path)
                                       @ (if os_name_nt e then ''.exe'' else []);
                        output_path = joinpath build_dir output_name
                    in (case compile_result e of
                          RunRaised m \<Rightarrow> (Inl (OSError m), fs2)
                        | Completed returncode err out \<Rightarrow>
                            (if returncode \<noteq> 0 then
                               (Inl (RuntimeError (lang @ '' compilation failed:'' @ [newline]
                                       @ (if err \<noteq> [] then err else out))), fs2)
                             else
                               (case write_file fs2 output_path of
                                  Inl er \<Rightarrow> (Inl er, fs2)
                                | Inr fs3 \<Rightarrow>
                                    (Inr ([str_path output_path], [str_path build_dir]),
                                     (if os_name_nt e then fs3
                                      else chmod_x fs3 output_path)))))))))"

text \<open>
  The Java branch: \<^verbatim>\<open>javac -d build_dir\<close>, then \<^verbatim>\<open>java -cp build_dir\<close> on the class
  named after the file, qualified by the package the source declares. The class files
  \<^verbatim>\<open>javac\<close> writes below \<^verbatim>\<open>build_dir\<close> are not tracked.
\<close>

definition compile_java ::
  "env \<Rightarrow> filesys \<Rightarrow> pypath \<Rightarrow> (error + string list \<times> string list) \<times> filesys" where
  "compile_java e fs file_path =
     (case ensure_upload_dir fs of
        Inl er \<Rightarrow> (Inl er, fs)
      | Inr fs1 \<Rightarrow>
          (let build_dir = joinpath UPLOAD_DIR (''build_'' @ uuid_build e)
           in (case mkdir_p fs1 build_dir of
                 Inl er \<Rightarrow> (Inl er, fs1)
               | Inr fs2 \<Rightarrow>
                   (case compile_result e of
                      RunRaised m \<Rightarrow> (Inl (OSError m), fs2)
                    | Completed returncode err out \<Rightarrow>
                        (if returncode \<noteq> 0 then
                           (Inl (RuntimeError (''Java compilation failed:'' @ [newline]
                                   @ (if err \<noteq> [] then err else out))), fs2)
                         else
                           (let class_name = stem_of (name_of file_path);
                                fqcn = (case java_package e of
                                          None \<Rightarrow> class_name
                                        | Some pkg \<Rightarrow>
                                            (if pkg \<noteq> [] then pkg @ ''.'' @ class_name
                                             else class_name))
                            in (Inr ([''java'', ''-cp'', str_path build_dir, fqcn],
                                     [str_path build_dir]), fs2)))))))"

text \<open>
  \<^verbatim>\<open>
  def build_execution_command(file_path: Path):
      if not file_path.exists():
          raise ValueError(f"File not found: {file_path}")
      cleanup_paths = []
      ext = file_path.suffix.lower()
      if os.access(file_path, os.X_OK) and ext not in interpreter_map:
          return [str(file_path)], cleanup_paths
      if ext in interpreter_map and interpreter_map[ext]:
          interpreter_cmd = interpreter_map[ext]
          if shutil.which(interpreter_cmd[0]) is None:
              raise RuntimeError(f"Required interpreter '{interpreter_cmd[0]}' not found on PATH.")
          return interpreter_cmd + [str(file_path)], cleanup_paths
      if ext in ('.c',): <C branch>
      if ext in ('.cpp', '.cc', '.cxx'): <C++ branch>
      if ext == '.java': <Java branch>
      raise ValueError(f"Unsupported file type: {file_path.suffix}")
  \<close>
\<close>

definition build_execution_command ::
  "env \<Rightarrow> filesys \<Rightarrow> pypath \<Rightarrow> (error + string list \<times> string list) \<times> filesys" where
  "build_execution_command e fs file_path =
     (if \<not> exists_path fs file_path
      then (Inl (ValueError (''File not found: '' @ str_path file_path)), fs)
      else
        (let ext = lower (suffix_of (name_of file_path))
         in if access_x fs file_path \<and> interpreter_map (os_name_nt e) ext = None
            then (Inr ([str_path file_path], []), fs)
            else
              (case interpreter_map (os_name_nt e) ext of
                 Some (Some interpreter_cmd) \<Rightarrow>
                   (if \<not> which e (hd interpreter_cmd)
                    then (Inl (RuntimeError (''Required interpreter '' @ [quote]
                                 @ hd interpreter_cmd @ [quote] @ '' not found on PATH.'')), fs)
                    else (Inr (interpreter_cmd @ [str_path file_path], []), fs))
               | _ \<Rightarrow>
                   (if ext = ''.c'' then compile_native e fs file_path ''C''
                    else if ext \<in> set [''.cpp'', ''.cc'', ''.cxx'']
                         then compile_native e fs file_path ''C++''
                    else if ext = ''.java'' then compile_java e fs file_path
                    else (Inl (ValueError (''Unsupported file type: ''
                                 @ suffix_of (name_of file_path))), fs)))))"

text \<open>
  The request of \<^verbatim>\<open>/api/analyze-run\<close>: the name of the uploaded file when there is
  one, and the form fields. The answer is the success body or a status code with the
  error message. The report of the static analyser is display only and left out; the
  manual path is taken without \<^verbatim>\<open>expanduser\<close>.
\<close>

record request =
  req_filename :: "string option"
  req_file_path :: "string option"
  form_cpu :: "string option"
  form_memory :: "string option"
  form_processes :: "string option"
  form_file_size :: "string option"

datatype response = Success string nat "string list" | Failure nat string

text \<open>\<^verbatim>\<open>request.form.get('cpu') or None\<close>.\<close>

definition form_limit :: "string option \<Rightarrow> pyval" where
  "form_limit v = (case v of None \<Rightarrow> PNone | Some s \<Rightarrow> (if s = [] then PNone else PStr s))"

text \<open>
  The first part of \<^verbatim>\<open>analyze_and_run\<close>: where the file to run is, and whether this
  request uploaded it.
  \<^verbatim>\<open>
  if file_storage and file_storage.filename:
      try:
          saved_path = save_uploaded_file(file_storage)
          uploaded = True
      except Exception as e:
          return jsonify({'error': f'Failed to save file: {str(e)}'}), 500
  elif manual_path:
      candidate = Path(manual_path).expanduser()
      try:
          candidate = candidate.resolve()
      except FileNotFoundError:
          candidate = None
      if not candidate or not candidate.exists():
          return jsonify({'error': f'File not found: {manual_path}'}), 400
      saved_path = candidate
  else:
      return jsonify({'error': 'No file provided'}), 400
  \<close>
\<close>

definition locate_file ::
  "env \<Rightarrow> filesys \<Rightarrow> request \<Rightarrow> (response + pypath \<times> bool) \<times> filesys" where
  "locate_file e fs req =
     (let manual_path = strip (case req_file_path req of None \<Rightarrow> [] | Some s \<Rightarrow> s)
      in if req_filename req \<noteq> None \<and> req_filename req \<noteq> Some []
         then (case save_uploaded_file e fs (the (req_filename req)) of
                 (Inl er, fs1) \<Rightarrow> (Inl (Failure 500 (''Failed to save file: '' @ message er)), fs1)
               | (Inr saved_path, fs1) \<Rightarrow> (Inr (saved_path, True), fs1))
         else if manual_path \<noteq> []
         then (case resolve fs (Path manual_path) of
                 None \<Rightarrow> (Inl (Failure 400 (''File not found: '' @ manual_path)), fs)
               | Some c \<Rightarrow>
                   (if \<not> exists_path fs (PyPath True c)
                    then (Inl (Failure 400 (''File not found: '' @ manual_path)), fs)
                    else (Inr (PyPath True c, False), fs)))
         else (Inl (Failure 400 ''No file provided''), fs))"

text \<open>
  The handler of the \<^verbatim>\<open>except\<close> clause:
  \<^verbatim>\<open>
  if uploaded and saved_path.exists():
      try:
          saved_path.unlink(missing_ok=True)
      except Exception:
          pass
  \<close>
\<close>

definition discard_upload :: "bool \<Rightarrow> filesys \<Rightarrow> pypath \<Rightarrow> filesys" where
  "discard_upload uploaded fs saved_path =
     (if uploaded \<and> exists_path fs saved_path then unlink fs saved_path else fs)"

text \<open>
  \<^verbatim>\<open>
  def analyze_and_run():
      <locate the file>
      saved_path = Path(saved_path).resolve()
      <analyse, for display>
      limits = {'cpu': request.form.get('cpu') or None, ...}
      try:
          command_parts, cleanup_paths = build_execution_command(saved_path)
          metadata = {'uploaded_file': str(saved_path) if uploaded else None,
                      'cleanup_paths': cleanup_paths}
          process_id, pid = launch_sandbox_process(command_parts, limits, metadata)
          return jsonify({'success': True, 'process_id': process_id, 'pid': pid, ...})
      except Exception as e:
          <discard the upload>
          return jsonify({'error': str(e), 'analysis': analysis_result}), 400
  \<close>
  The \<^verbatim>\<open>resolve\<close> outside the \<^verbatim>\<open>try\<close> can only fail when the working directory is
  gone; Flask then answers 500.
\<close>

definition analyze_and_run :: "env \<Rightarrow> world \<Rightarrow> request \<Rightarrow> response \<times> world" where
  "analyze_and_run e w req =
     (case locate_file e (fsys w) req of
        (Inl resp, fs1) \<Rightarrow> (resp, w\<lparr>fsys := fs1\<rparr>)
      | (Inr (located, uploaded), fs1) \<Rightarrow>
          (case resolve fs1 located of
             None \<Rightarrow> (Failure 500 ''FileNotFoundError'', w\<lparr>fsys := fs1\<rparr>)
           | Some c \<Rightarrow>
               (let saved_path = PyPath True c;
                    lim = \<lparr>cpu = form_limit (form_cpu req),
                           memory = form_limit (form_memory req),
                           processes = form_limit (form_processes req),
                           file_size = form_limit (form_file_size req)\<rparr>
                in (case build_execution_command e fs1 saved_path of
                      (Inl er, fs2) \<Rightarrow>
                        (Failure 400 (message er),
                         w\<lparr>fsys := discard_upload uploaded fs2 saved_path\<rparr>)
                    | (Inr (command_parts, build_paths), fs2) \<Rightarrow>
                        (case launch_sandbox_process e (w\<lparr>fsys := fs2\<rparr>) command_parts lim
                                \<lparr>m_uploaded_file =
                                    (if uploaded then Some (str_path saved_path) else None),
                                 m_cleanup_paths = build_paths\<rparr> of
                           (Inl er, w1) \<Rightarrow>
                             (Failure 400 (message er),
                              w1\<lparr>fsys := discard_upload uploaded (fsys w1) saved_path\<rparr>)
                         | (Inr (process_id, child_pid), w1) \<Rightarrow>
                             (Success process_id child_pid command_parts, w1))))))"

text \<open>The CLI's limits as the launcher's dictionary, to compare the two assemblies.\<close>

definition limits_of_args :: "cli_args \<Rightarrow> limits" where
  "limits_of_args a =
     \<lparr>cpu = (case arg_cpu a of None \<Rightarrow> PNone | Some i \<Rightarrow> PInt i),
      memory = (case arg_memory a of None \<Rightarrow> PNone | Some i \<Rightarrow> PInt i),
      processes = (case arg_processes a of None \<Rightarrow> PNone | Some i \<Rightarrow> PInt i),
      file_size = (case arg_file_size a of None \<Rightarrow> PNone | Some i \<Rightarrow> PInt i)\<rparr>"

section \<open>Example states\<close>

text \<open>
  A server running in \<^verbatim>\<open>/srv\<close>: the uploads directory holds an uploaded C source, its
  build directory with the compiled program, and the upload of another session.
\<close>

definition example_fs :: filesys where
  "example_fs =
     \<lparr>cwd = [''srv''],
      dirs = [[], [''etc''], [''srv''], [''srv'', ''uploads''],
              [''srv'', ''uploads'', ''build_1'']],
      files = [[''etc'', ''passwd''], [''srv'', ''uploads'', ''a_1.c''],
               [''srv'', ''uploads'', ''build_1'', ''a_1''],
               [''srv'', ''uploads'', ''other_2.py'']],
      xnodes = [[''srv'', ''uploads'', ''build_1'', ''a_1'']]\<rparr>"

text \<open>
  A session whose recorded clean-up paths hold, besides its build directory, a path
  with \<^verbatim>\<open>../../etc\<close> and the parent of the uploads root.
\<close>

definition example_info :: proc_info where
  "example_info =
     \<lparr>process = Some \<lparr>proc_pid = 4242, poll = None\<rparr>,
      pid = 4242,
      command = ''/srv/sandbox uploads/build_1/a_1'',
      start_time = 0,
      stdin = Some \<lparr>pending = [], delivered = [], fault = None\<rparr>,
      uploaded_file = Some ''/srv/uploads/a_1.c'',
      cleanup_paths = [''uploads/build_1'', ''uploads/../../etc'', ''/srv'']\<rparr>"

definition example_world :: world where
  "example_world =
     \<lparr>running_processes = [''proc_1'' \<mapsto> example_info],
      fsys = example_fs, emitted = [], spawned = []\<rparr>"

text \<open>The same session with the uploads root itself recorded for clean-up.\<close>

definition example_world_root :: world where
  "example_world_root =
     \<lparr>running_processes = [''proc_1'' \<mapsto> example_info\<lparr>cleanup_paths := [''uploads'']\<rparr>],
      fsys = example_fs, emitted = [], spawned = []\<rparr>"

text \<open>
  Surroundings in which the sandbox binary is found, every interpreter is on the
  \<^verbatim>\<open>PATH\<close>, the spawn succeeds and the compiler rejects the source.
\<close>

definition example_env :: env where
  "example_env =
     \<lparr>find_sandbox = Some ''/srv/sandbox'',
      uuid_fallback = ''0a'', uuid_unique = ''1b'', uuid_build = ''2c'', uuid_proc = ''7f'',
      popen_result = Inr 4243,
      clock = 100,
      os_name_nt = False,
      which = (\<lambda>s. True),
      compile_result = Completed 1 ''bad.c:1:11: error: expected declaration'' [],
      java_package = None,
      secure_filename = (\<lambda>s. s)\<rparr>"

text \<open>A server with nothing uploaded yet and no session, and the upload of \<^verbatim>\<open>bad.c\<close>.\<close>

definition fresh_world :: world where
  "fresh_world =
     \<lparr>running_processes = Map.empty,
      fsys = \<lparr>cwd = [''srv''], dirs = [[], [''srv'']], files = [[''srv'', ''sandbox'']],
              xnodes = [[''srv'', ''sandbox'']]\<rparr>,
      emitted = [], spawned = []\<rparr>"

definition upload_bad_c :: request where
  "upload_bad_c =
     \<lparr>req_filename = Some ''bad.c'', req_file_path = None,
      form_cpu = Some ''5'', form_memory = None, form_processes = None,
      form_file_size = None\<rparr>"

section \<open>Properties of the prompt logic\<close>

lemma retract_prompt_not_waiting:
  "\<not> waiting_for_input g \<Longrightarrow> retract_prompt g = g"
  by (simp add: retract_prompt_def split: option.splits)

lemma retract_prompt_clears: "\<not> waiting_for_input (retract_prompt g) \<or> input_start_marker (retract_prompt g) = None"
  by (simp add: retract_prompt_def tk_delete_def split: option.splits)

lemma retract_prompt_idem: "retract_prompt (retract_prompt g) = retract_prompt g"
  by (simp add: retract_prompt_def tk_delete_def split: option.splits)

lemma retract_after_show:
  assumes "is_running g" "\<not> waiting_for_input g"
  shows "output_text (retract_prompt (type_keys u (show_prompt g))) = output_text g @ u"
  using assms
  by (simp add: retract_prompt_def show_prompt_def type_keys_def tk_insert_end_def
      tk_delete_def Let_def)

text \<open>
  C9. Retraction is idempotent, and with no prompt shown (\<^verbatim>\<open>waiting_for_input\<close> false)
  it changes nothing, so \<^verbatim>\<open>log_output\<close> only appends: the widget then holds the old
  content followed by the new output and no other attribute changes. When a prompt was
  shown (by \<^verbatim>\<open>show_prompt\<close> on a running session, possibly followed by keys the operator
  typed after it), the next output removes exactly the two characters of the prompt and
  is appended at the end, and the state leaves the waiting mode.
\<close>

theorem prompt_retraction_idempotent:
  "retract_prompt (retract_prompt g) = retract_prompt g
   \<and> (\<not> waiting_for_input g \<longrightarrow>
        retract_prompt g = g \<and> log_output g s = g\<lparr>output_text := output_text g @ s\<rparr>)
   \<and> (is_running g \<and> \<not> waiting_for_input g \<longrightarrow>
        output_text (show_prompt g) = output_text g @ ''$ ''
        \<and> waiting_for_input (show_prompt g)
        \<and> output_text (log_output (type_keys u (show_prompt g)) s) = output_text g @ u @ s
        \<and> \<not> waiting_for_input (log_output (type_keys u (show_prompt g)) s)
        \<and> input_start_marker (log_output (type_keys u (show_prompt g)) s) = None)"
proof (intro conjI impI)
  show "retract_prompt (retract_prompt g) = retract_prompt g"
    by (rule retract_prompt_idem)
next
  assume "\<not> waiting_for_input g"
  then show "retract_prompt g = g" by (rule retract_prompt_not_waiting)
next
  assume "\<not> waiting_for_input g"
  then show "log_output g s = g\<lparr>output_text := output_text g @ s\<rparr>"
    by (simp add: log_output_def retract_prompt_not_waiting tk_insert_end_def)
next
  assume "is_running g \<and> \<not> waiting_for_input g"
  then show "output_text (show_prompt g) = output_text g @ ''$ ''"
    by (simp add: show_prompt_def tk_insert_end_def Let_def)
next
  assume "is_running g \<and> \<not> waiting_for_input g"
  then show "waiting_for_input (show_prompt g)"
    by (simp add: show_prompt_def tk_insert_end_def Let_def)
next
  assume "is_running g \<and> \<not> waiting_for_input g"
  then show "output_text (log_output (type_keys u (show_prompt g)) s) = output_text g @ u @ s"
    by (simp add: log_output_def tk_insert_end_def retract_after_show)
next
  assume a: "is_running g \<and> \<not> waiting_for_input g"
  then show "\<not> waiting_for_input (log_output (type_keys u (show_prompt g)) s)"
    by (simp add: log_output_def retract_prompt_def show_prompt_def type_keys_def
        tk_insert_end_def tk_delete_def Let_def)
next
  assume a: "is_running g \<and> \<not> waiting_for_input g"
  then show "input_start_marker (log_output (type_keys u (show_prompt g)) s) = None"
    by (simp add: log_output_def retract_prompt_def show_prompt_def type_keys_def
        tk_insert_end_def tk_delete_def Let_def)
qed

theorem prompt_retraction_idempotent_witness:
  "output_text (log_output \<lparr>output_text = ''name? '', input_start_marker = None,
       waiting_for_input = False, is_running = True, current_input_line = []\<rparr> ''hi'')
     = ''name? hi''
   \<and> output_text (show_prompt \<lparr>output_text = ''a'', input_start_marker = None,
       waiting_for_input = False, is_running = True, current_input_line = []\<rparr>) = ''a$ ''
   \<and> output_text (log_output (type_keys ''x'' (show_prompt \<lparr>output_text = ''a'',
       input_start_marker = None, waiting_for_input = False, is_running = True,
       current_input_line = []\<rparr>)) ''out'') = ''axout''"
  using prompt_retraction_idempotent [of "\<lparr>output_text = ''name? '', input_start_marker = None,
       waiting_for_input = False, is_running = True, current_input_line = []\<rparr>" "''hi''" "''x''"]
    prompt_retraction_idempotent [of "\<lparr>output_text = ''a'', input_start_marker = None,
       waiting_for_input = False, is_running = True, current_input_line = []\<rparr>" "''out''" "''x''"]
  by simp

section \<open>Properties of the clean-up\<close>







lemma remove_path_cwd: "cwd (remove_path fs p) = cwd fs"
  by (simp add: remove_path_def rmtree_def unlink_def split: option.splits)




lemma remove_paths_cwd: "cwd (remove_paths fs ps) = cwd fs"
  by (induction ps arbitrary: fs) (simp_all add: remove_paths_def remove_path_cwd)








text \<open>
  C10. The containment test accepts the uploads root itself: \<^verbatim>\<open>UPLOAD_DIR\<close> is within
  the uploads whenever the working directory exists, and so is every path whose
  canonical form equals the canonical root; recorded as a clean-up path, such a path is
  put on the removal list.
\<close>

theorem uploads_root_is_within:
  "(getcwd fs = Some d \<longrightarrow> is_within_uploads fs UPLOAD_DIR)
   \<and> (resolve fs UPLOAD_DIR = Some r \<and> resolve fs (Path s) = Some r \<longrightarrow>
        is_within_uploads fs (Path s)
        \<and> (s \<in> set (cleanup_paths info) \<longrightarrow> Path s \<in> set (paths_to_remove fs info)))"
  by (auto simp: is_within_uploads_def resolve_def paths_to_remove_def split: option.splits)

theorem uploads_root_is_within_witness:
  "is_within_uploads example_fs UPLOAD_DIR
   \<and> is_within_uploads example_fs (Path ''uploads/build_1/..'')
   \<and> Path ''uploads'' \<in> set (paths_to_remove example_fs
        (example_info\<lparr>cleanup_paths := [''uploads'']\<rparr>))
   \<and> fsys (cleanup_process_resources example_world_root ''proc_1'')
       = \<lparr>cwd = [''srv''], dirs = [[], [''etc''], [''srv'']],
          files = [[''etc'', ''passwd'']], xnodes = []\<rparr>"
proof -
  have a: "getcwd example_fs = Some [''srv'']" by code_simp
  have b: "resolve example_fs UPLOAD_DIR = Some [''srv'', ''uploads'']"
    "resolve example_fs (Path ''uploads/build_1/..'') = Some [''srv'', ''uploads'']"
    "resolve example_fs (Path ''uploads'') = Some [''srv'', ''uploads'']" by code_simp+
  have c: "''uploads'' \<in> set (cleanup_paths (example_info\<lparr>cleanup_paths := [''uploads'']\<rparr>))"
    by simp
  have d: "fsys (cleanup_process_resources example_world_root ''proc_1'')
       = \<lparr>cwd = [''srv''], dirs = [[], [''etc''], [''srv'']],
          files = [[''etc'', ''passwd'']], xnodes = []\<rparr>" by code_simp
  show ?thesis
    using a b c d
      uploads_root_is_within [of example_fs "[''srv'']" "[''srv'', ''uploads'']"
        "''uploads/build_1/..''" example_info]
      uploads_root_is_within [of example_fs "[''srv'']" "[''srv'', ''uploads'']"
        "''uploads''" "example_info\<lparr>cleanup_paths := [''uploads'']\<rparr>"]
    by blast
qed

text \<open>
  C7. Unregistering twice: the second \<^verbatim>\<open>cleanup_process_resources\<close> on the same id
  returns the state the first one left (no registry change, no file removed), the id
  is absent after the first call, and on an absent id the call changes nothing. The
  function has no error result: nothing in it raises outside a \<^verbatim>\<open>try\<close>.
\<close>

theorem unregister_idempotent:
  "cleanup_process_resources (cleanup_process_resources w process_id) process_id
     = cleanup_process_resources w process_id
   \<and> running_processes (cleanup_process_resources w process_id) process_id = None
   \<and> (running_processes w process_id = None \<longrightarrow> cleanup_process_resources w process_id = w)"
  by (simp add: cleanup_process_resources_def split: option.splits)

theorem unregister_idempotent_witness:
  "running_processes (cleanup_process_resources example_world ''proc_1'') ''proc_1'' = None
   \<and> cleanup_process_resources (cleanup_process_resources example_world ''proc_1'') ''proc_1''
     = cleanup_process_resources example_world ''proc_1''
   \<and> cleanup_process_resources (cleanup_process_resources (cleanup_process_resources
        example_world ''proc_1'') ''proc_1'') ''proc_1''
     = cleanup_process_resources example_world ''proc_1''
   \<and> fsys (cleanup_process_resources (cleanup_process_resources example_world ''proc_1'')
        ''proc_1'')
     = \<lparr>cwd = [''srv''], dirs = [[], [''etc''], [''srv''], [''srv'', ''uploads'']],
        files = [[''etc'', ''passwd''], [''srv'', ''uploads'', ''other_2.py'']],
        xnodes = []\<rparr>"
proof -
  have a: "fsys (cleanup_process_resources example_world ''proc_1'')
     = \<lparr>cwd = [''srv''], dirs = [[], [''etc''], [''srv''], [''srv'', ''uploads'']],
        files = [[''etc'', ''passwd''], [''srv'', ''uploads'', ''other_2.py'']],
        xnodes = []\<rparr>" by code_simp
  show ?thesis
    using a unregister_idempotent [of example_world "''proc_1''"]
      unregister_idempotent [of "cleanup_process_resources example_world ''proc_1''" "''proc_1''"]
    by simp
qed

section \<open>Properties of output streaming and input relay\<close>









text \<open>
  C5. A delivery to a live session (registered, process running, pipe not broken) with
  text \<^verbatim>\<open>t\<close> and flag \<^verbatim>\<open>b\<close>: the child's standard input receives, after what it held,
  \<^verbatim>\<open>t\<close> followed by one newline when \<^verbatim>\<open>b\<close> holds and \<^verbatim>\<open>t\<close> does not end in a newline,
  and \<^verbatim>\<open>t\<close> unchanged otherwise; nothing stays unflushed, no event is emitted and
  nothing else in the state changes. An absent flag counts as true.
\<close>

theorem send_input_writes_and_flushes:
  assumes "i \<noteq> []"
    and "running_processes w i = Some info"
    and "process info = Some proc" and "poll proc = None"
    and "stdin info = Some sin" and "fault sin = None"
  shows "handle_send_input w
           \<lparr>d_process_id = Some i, d_text = Given t, d_append_newline = Given b\<rparr>
         = w\<lparr>running_processes := (running_processes w)
              (i \<mapsto> info\<lparr>stdin := Some (sin\<lparr>
                 delivered := delivered sin @ pending sin
                    @ (if b \<and> (t = [] \<or> last t \<noteq> newline) then t @ [newline] else t),
                 pending := []\<rparr>)\<rparr>)\<rparr>
         \<and> handle_send_input w
             \<lparr>d_process_id = Some i, d_text = Given t, d_append_newline = Absent\<rparr>
           = handle_send_input w
             \<lparr>d_process_id = Some i, d_text = Given t, d_append_newline = Given True\<rparr>"
  using assms
  by (auto simp: handle_send_input_def write_and_flush_def pipe_write_def pipe_flush_def
      get_text_def get_append_newline_def endswith_nl_def)

theorem send_input_writes_and_flushes_witness:
  "map_option stdin (running_processes (handle_send_input example_world
       \<lparr>d_process_id = Some ''proc_1'', d_text = Given ''Ada'', d_append_newline = Given True\<rparr>)
       ''proc_1'')
     = Some (Some \<lparr>pending = [], delivered = [CHR ''A'', CHR ''d'', CHR ''a'', newline],
         fault = None\<rparr>)
   \<and> map_option stdin (running_processes (handle_send_input example_world
       \<lparr>d_process_id = Some ''proc_1'', d_text = Given ''Ada'', d_append_newline = Given False\<rparr>)
       ''proc_1'')
     = Some (Some \<lparr>pending = [], delivered = ''Ada'', fault = None\<rparr>)
   \<and> map_option stdin (running_processes (handle_send_input example_world
       \<lparr>d_process_id = Some ''proc_1'', d_text = Given [CHR ''A'', newline],
        d_append_newline = Given True\<rparr>) ''proc_1'')
     = Some (Some \<lparr>pending = [], delivered = [CHR ''A'', newline], fault = None\<rparr>)"
proof -
  have a: "''proc_1'' \<noteq> []" "running_processes example_world ''proc_1'' = Some example_info"
    "process example_info = Some \<lparr>proc_pid = 4242, poll = None\<rparr>"
    "poll \<lparr>proc_pid = 4242, poll = None\<rparr> = None"
    "stdin example_info = Some \<lparr>pending = [], delivered = [], fault = None\<rparr>"
    "fault \<lparr>pending = [], delivered = [], fault = None\<rparr> = None"
    by (simp_all add: example_world_def example_info_def)
  have n: "CHR ''a'' \<noteq> newline" by (simp add: newline_def)
  show ?thesis
    using send_input_writes_and_flushes [OF a, of "''Ada''" True]
      send_input_writes_and_flushes [OF a, of "''Ada''" False]
      send_input_writes_and_flushes [OF a, of "[CHR ''A'', newline]" True]
    by (simp add: n)
qed

section \<open>Properties of the launch path\<close>

lemma assemble_closed:
  "assemble_cmd sb lim c
     = sb # map (\<lambda>(n, v). n @ str_of v)
              (filter (\<lambda>(n, v). truthy v)
                 [(''--cpu='', cpu lim), (''--mem='', memory lim),
                  (''--procs='', processes lim), (''--fsize='', file_size lim)]) @ c"
  by (simp add: assemble_cmd_def Let_def)

lemma run_command_cmd_assemble:
  "run_command_cmd sb a = assemble_cmd sb (limits_of_args a) (arg_command a)"
  by (simp add: run_command_cmd_def assemble_cmd_def limits_of_args_def arg_truthy_def Let_def
      split: option.splits)

text \<open>
  C6. The invocation is the sandbox binary, then the flags of the limits that are
  present, in the order \<^verbatim>\<open>--cpu=\<close>, \<^verbatim>\<open>--mem=\<close>, \<^verbatim>\<open>--procs=\<close>, \<^verbatim>\<open>--fsize=\<close>, each
  followed by the value as it prints, then the target command, and nothing else. A
  limit is present when its value is truthy, as every positive integer and every
  non-empty string is. The CLI's \<^verbatim>\<open>run_command\<close> assembles the same list.
\<close>

theorem invocation_layout:
  "assemble_cmd sb lim c
     = sb # map (\<lambda>(n, v). n @ str_of v)
              (filter (\<lambda>(n, v). truthy v)
                 [(''--cpu='', cpu lim), (''--mem='', memory lim),
                  (''--procs='', processes lim), (''--fsize='', file_size lim)]) @ c
   \<and> run_command_cmd sb a = assemble_cmd sb (limits_of_args a) (arg_command a)
   \<and> truthy (PInt (1 + int k)) \<and> str_of (PInt (1 + int k)) = str_nat (Suc k)"
proof (intro conjI)
  show "assemble_cmd sb lim c
     = sb # map (\<lambda>(n, v). n @ str_of v)
              (filter (\<lambda>(n, v). truthy v)
                 [(''--cpu='', cpu lim), (''--mem='', memory lim),
                  (''--procs='', processes lim), (''--fsize='', file_size lim)]) @ c"
    by (rule assemble_closed)
  show "run_command_cmd sb a = assemble_cmd sb (limits_of_args a) (arg_command a)"
    by (rule run_command_cmd_assemble)
  show "truthy (PInt (1 + int k))" by simp
  have "nat (1 + int k) = Suc k" by simp
  then show "str_of (PInt (1 + int k)) = str_nat (Suc k)"
    by (simp add: str_int_def del: str_nat.simps)
qed

theorem invocation_layout_witness:
  "assemble_cmd ''/srv/sandbox''
       \<lparr>cpu = PInt 5, memory = PNone, processes = PInt 10, file_size = PNone\<rparr>
       [''python3'', ''hello.py'']
     = [''/srv/sandbox'', ''--cpu=5'', ''--procs=10'', ''python3'', ''hello.py'']
   \<and> run_command_cmd ''/srv/sandbox''
       \<lparr>arg_cpu = Some 5, arg_memory = None, arg_processes = Some 10, arg_file_size = None,
        arg_command = [''python3'', ''hello.py'']\<rparr>
     = [''/srv/sandbox'', ''--cpu=5'', ''--procs=10'', ''python3'', ''hello.py'']"
proof -
  have s: "str_int 5 = ''5''" "str_int 10 = ''10''"
    by (simp_all add: str_int_def digit_char_def)
  note t = invocation_layout [where sb = "''/srv/sandbox''" and c = "[''python3'', ''hello.py'']"
      and lim = "\<lparr>cpu = PInt 5, memory = PNone, processes = PInt 10, file_size = PNone\<rparr>"
      and a = "\<lparr>arg_cpu = Some 5, arg_memory = None, arg_processes = Some 10,
        arg_file_size = None, arg_command = [''python3'', ''hello.py'']\<rparr>"]
  from t have 1: "assemble_cmd ''/srv/sandbox''
       \<lparr>cpu = PInt 5, memory = PNone, processes = PInt 10, file_size = PNone\<rparr>
       [''python3'', ''hello.py'']
     = [''/srv/sandbox'', ''--cpu=5'', ''--procs=10'', ''python3'', ''hello.py'']"
    by (simp add: s)
  from t have "run_command_cmd ''/srv/sandbox''
       \<lparr>arg_cpu = Some 5, arg_memory = None, arg_processes = Some 10, arg_file_size = None,
        arg_command = [''python3'', ''hello.py'']\<rparr>
     = assemble_cmd ''/srv/sandbox''
       \<lparr>cpu = PInt 5, memory = PNone, processes = PInt 10, file_size = PNone\<rparr>
       [''python3'', ''hello.py'']"
    by (simp add: limits_of_args_def)
  with 1 show ?thesis by simp
qed




section \<open>Properties of a failed compilation\<close>

lemma mkdir_p_creates:
  "mkdir_p fs p = Inr fs' \<Longrightarrow> lexical fs p \<in> set (dirs fs')"
  by (auto simp: mkdir_p_def Let_def split: if_splits)

text \<open>
  Whenever the compiler returns a non-zero code, the C and C++ branch raises with the
  build directory created and left in place.
\<close>

lemma compile_native_failure_keeps_build_dir:
  assumes "compile_native e fs file_path lang = (r, fs')"
    and "compile_result e = Completed rc err out" and "rc \<noteq> 0"
    and "ensure_upload_dir fs = Inr fs1"
    and "mkdir_p fs1 (joinpath UPLOAD_DIR (''build_'' @ uuid_build e)) = Inr fs2"
  shows "r = Inl (RuntimeError (lang @ '' compilation failed:'' @ [newline]
                    @ (if err \<noteq> [] then err else out)))
         \<and> fs' = fs2
         \<and> lexical fs1 (joinpath UPLOAD_DIR (''build_'' @ uuid_build e)) \<in> set (dirs fs')"
  using assms mkdir_p_creates [OF assms(5)]
  by (simp add: compile_native_def Let_def)

text \<open>
  A request whose command cannot be built registers no session and spawns nothing.
\<close>

lemma analyze_and_run_build_failure:
  assumes "locate_file e (fsys w) req = (Inr (located, uploaded), fs1)"
    and "resolve fs1 located = Some c"
    and "build_execution_command e fs1 (PyPath True c) = (Inl er, fs2)"
  shows "analyze_and_run e w req
           = (Failure 400 (message er),
              w\<lparr>fsys := discard_upload uploaded fs2 (PyPath True c)\<rparr>)"
  using assms by (simp add: analyze_and_run_def Let_def)

text \<open>
  C8, at the upload of a C source with a syntax error. The request is answered with
  the compiler's error (status 400), no session is registered, nothing is spawned and
  the uploaded source is removed again; but the build directory
  \<^verbatim>\<open>uploads/build_2c\<close>, created for this request before the compiler ran, is still
  there afterwards. On the successful path the same directory is recorded in
  \<^verbatim>\<open>cleanup_paths\<close> and removed when the session ends.
\<close>

theorem compile_failure_leaves_build_dir:
  "fst (analyze_and_run example_env fresh_world upload_bad_c)
     = Failure 400 (''C compilation failed:'' @ [newline]
         @ ''bad.c:1:11: error: expected declaration'')
   \<and> running_processes (snd (analyze_and_run example_env fresh_world upload_bad_c)) ''proc_7f''
       = None
   \<and> spawned (snd (analyze_and_run example_env fresh_world upload_bad_c)) = []
   \<and> [''srv'', ''uploads'', ''bad_1b.c'']
       \<notin> set (files (fsys (snd (analyze_and_run example_env fresh_world upload_bad_c))))
   \<and> [''srv'', ''uploads'', ''build_2c'']
       \<in> set (dirs (fsys (snd (analyze_and_run example_env fresh_world upload_bad_c))))
   \<and> [''srv'', ''uploads'', ''build_2c''] \<notin> set (dirs (fsys fresh_world))
   \<and> [''srv'', ''uploads'', ''build_2c'']
       \<notin> set (dirs (fsys (cleanup_process_resources
            (snd (analyze_and_run (example_env\<lparr>compile_result := Completed 0 [] []\<rparr>)
               fresh_world upload_bad_c)) ''proc_7f'')))"
  by (intro conjI; code_simp)

end
